theory Spec2Isabelle
  imports Main
begin

section \<open>The user directory hook (useUserManagement.ts)\<close>

subsection \<open>Values exchanged with the collaborators\<close>

text \<open>
  A thrown or returned error object. The hook reads only its \<open>message\<close>, which
  may be missing (\<open>onError\<close> takes \<open>error: any\<close>).
  \<open>new Error('m')\<close> is \<open>Error (Some ''m'')\<close>.
\<close>

datatype js_error = Error (message: "string option")

text \<open>The values passed to the console next to the message text.\<close>

datatype js_value = Undefined | Str string | Err js_error

definition opt_str :: "string option \<Rightarrow> js_value" where
  "opt_str v = (case v of None \<Rightarrow> Undefined | Some s \<Rightarrow> Str s)"

text \<open>
  \<open>a || b\<close> for \<open>a\<close> a string or undefined: the empty string and undefined are
  falsy, every other string is truthy.
\<close>

definition js_or :: "string option \<Rightarrow> string \<Rightarrow> string" where
  "js_or a b = (case a of None \<Rightarrow> b | Some s \<Rightarrow> if s \<noteq> [] then s else b)"

text \<open>The caller identity of the auth collaborator; \<open>user?.id\<close> is \<open>map_option caller_id user\<close>.\<close>

record auth_user =
  caller_id :: string

type_synonym session = string

text \<open>
  The rows of the six selects, with the columns each select lists. The field \<open>id\<close> of a
  profile is \<open>profile_id\<close> here, the column \<open>reason\<close> of a ban is \<open>ban_reason\<close>,
  the column \<open>username\<close> of a social account is \<open>social_username\<close>. Every satellite
  row carries \<open>user_id\<close>.
\<close>

record profile =
  profile_id :: string
  username :: string
  full_name :: string
  created_at :: string

record sat_row =
  user_id :: string

record role_row = sat_row +
  role :: string

record credit_row = sat_row +
  balance :: int

record social_row = sat_row +
  platform :: string
  social_username :: string
  verified :: bool

record wallet_row = sat_row +
  blockchain :: string
  wallet_address :: string
  wallet_name :: string
  is_primary :: bool

record ban_row = sat_row +
  ban_reason :: string
  banned_at :: string
  is_active :: bool

text \<open>The object a select resolves to, destructured by the hook as \<open>{ data, error }\<close>.\<close>

record 'a response =
  data :: "'a list option"
  error :: "js_error option"

text \<open>The merged record of the directory: the profile's fields spread, then the five attachments.\<close>

record merged_user = profile +
  user_roles :: "role_row list"
  user_credits :: "credit_row list"
  social_accounts :: "social_row list"
  wallets :: "wallet_row list"
  ban_info :: "ban_row option"

subsection \<open>Requests and effects\<close>

text \<open>
  The selects the fetch builds: the profile select with its optional \<open>or\<close> filter on the
  search term, and the satellite selects with their \<open>in('user_id', userIds)\<close> filter; the
  ban select also carries \<open>eq('is_active', true)\<close>.
\<close>

datatype read_request =
    Profiles "string option"
  | User_roles "string list"
  | User_credits "string list"
  | User_social_accounts "string list"
  | User_wallets "string list"
  | User_bans "string list" bool

text \<open>
  The writes of the four mutations:
  \<^item> \<open>Upsert_user_roles user_id role\<close>;
  \<^item> \<open>Delete_user_roles user_id role\<close>, the two \<open>eq\<close> filters of the delete;
  \<^item> \<open>Insert_user_bans user_id banned_by reason is_active\<close>;
  \<^item> \<open>Update_user_bans is_active unbanned_at updated_at user_id is_active_filter\<close>, the
    three columns set and the two \<open>eq\<close> filters.
\<close>

datatype write_request =
    Upsert_user_roles string string
  | Delete_user_roles string string
  | Insert_user_bans string "string option" string bool
  | Update_user_bans bool string string string bool

record toast =
  title :: string
  description :: string
  variant :: "string option"

text \<open>
  What a run does, in order. The console texts are the source's without their leading
  pictograph.
\<close>

datatype event =
    Console_log string js_value
  | Console_error string js_value
  | Auth_getSession
  | Select read_request
  | Write write_request
  | InvalidateQueries "string list"
  | Toast toast

text \<open>
  The collaborators as the hook sees them during one run: what the session lookup and
  each request resolve to, and the two readings of the clock taken by the unban.
\<close>

record world =
  getSession :: "session option"
  from_profiles :: "string option \<Rightarrow> profile response"
  from_user_roles :: "string list \<Rightarrow> role_row response"
  from_user_credits :: "string list \<Rightarrow> credit_row response"
  from_user_social_accounts :: "string list \<Rightarrow> social_row response"
  from_user_wallets :: "string list \<Rightarrow> wallet_row response"
  from_user_bans :: "string list \<Rightarrow> bool \<Rightarrow> ban_row response"
  write_error :: "write_request \<Rightarrow> js_error option"
  date_now :: "string \<times> string"

subsection \<open>The directory fetch\<close>

definition log_error :: "string \<Rightarrow> js_error option \<Rightarrow> event list" where
  "log_error text e = (case e of None \<Rightarrow> [] | Some err \<Rightarrow> [Console_error text (Err err)])"

definition queryFn :: "world \<Rightarrow> auth_user option \<Rightarrow> string \<Rightarrow> event list \<times> (js_error + merged_user list)" where
  "queryFn w user searchTerm =
    (let t1 = [Console_log ''UserManagement: Fetching enhanced user data, current user:''
                 (opt_str (map_option caller_id user)),
               Auth_getSession]
     in case getSession w of
       None \<Rightarrow> (t1, Inl (Error (Some ''No authenticated session found'')))
     | Some session \<Rightarrow>
        (let profileQuery = (if searchTerm \<noteq> [] then Some searchTerm else None);
             pr = from_profiles w profileQuery;
             t2 = t1 @ [Select (Profiles profileQuery)]
         in case error pr of
           Some profileError \<Rightarrow>
             (t2 @ [Console_error ''UserManagement: Profile fetch error:'' (Err profileError)],
              Inl profileError)
         | None \<Rightarrow>
            (case data pr of
               None \<Rightarrow> (t2, Inr [])
             | Some profiles \<Rightarrow>
                if length profiles = 0 then (t2, Inr [])
                else
                  (let userIds = map profile_id profiles;
                       rr = from_user_roles w userIds;
                       cr = from_user_credits w userIds;
                       sr = from_user_social_accounts w userIds;
                       wr = from_user_wallets w userIds;
                       br = from_user_bans w userIds True;
                       t3 = t2
                         @ [Select (User_roles userIds)]
                         @ log_error ''UserManagement: Roles fetch error:'' (error rr)
                         @ [Select (User_credits userIds)]
                         @ log_error ''UserManagement: Credits fetch error:'' (error cr)
                         @ [Select (User_social_accounts userIds)]
                         @ log_error ''UserManagement: Social accounts fetch error:'' (error sr)
                         @ [Select (User_wallets userIds)]
                         @ log_error ''UserManagement: Wallets fetch error:'' (error wr)
                         @ [Select (User_bans userIds True)]
                         @ log_error ''UserManagement: Bans fetch error:'' (error br)
                   in (t3,
                       Inr (map (\<lambda>p.
                         \<lparr> profile_id = profile_id p, username = username p,
                           full_name = full_name p, created_at = created_at p,
                           user_roles = (case data rr of
                              Some userRoles \<Rightarrow> filter (\<lambda>role. user_id role = profile_id p) userRoles
                            | None \<Rightarrow> []),
                           user_credits = (case data cr of
                              Some userCredits \<Rightarrow> filter (\<lambda>credit. user_id credit = profile_id p) userCredits
                            | None \<Rightarrow> []),
                           social_accounts = (case data sr of
                              Some socialAccounts \<Rightarrow> filter (\<lambda>social. user_id social = profile_id p) socialAccounts
                            | None \<Rightarrow> []),
                           wallets = (case data wr of
                              Some userWallets \<Rightarrow> filter (\<lambda>wallet. user_id wallet = profile_id p) userWallets
                            | None \<Rightarrow> []),
                           ban_info = (case data br of
                              Some userBans \<Rightarrow> find (\<lambda>ban. user_id ban = profile_id p) userBans
                            | None \<Rightarrow> None) \<rparr>) profiles))))))"

subsection \<open>The mutations\<close>

text \<open>
  The mutation runner of the query library, as the hook uses it: \<open>mutationFn\<close> runs on
  the variables; when it resolves \<open>onSuccess\<close> runs, when it rejects \<open>onError\<close> runs on
  the error it rejected with.
\<close>

definition useMutation ::
  "('v \<Rightarrow> event list \<times> (js_error + unit)) \<Rightarrow> event list \<Rightarrow> (js_error \<Rightarrow> event list) \<Rightarrow> 'v \<Rightarrow> event list" where
  "useMutation mutationFn onSuccess onError v =
    (case mutationFn v of
       (t, Inr u) \<Rightarrow> t @ onSuccess
     | (t, Inl e) \<Rightarrow> t @ onError e)"

definition makeAdmin_mutationFn :: "world \<Rightarrow> string \<Rightarrow> event list \<times> (js_error + unit)" where
  "makeAdmin_mutationFn w userId =
    (let t1 = [Console_log ''UserManagement: Making user admin:'' (Str userId), Auth_getSession]
     in case getSession w of
       None \<Rightarrow> (t1, Inl (Error (Some ''No authenticated session found'')))
     | Some session \<Rightarrow>
        (let t2 = t1 @ [Write (Upsert_user_roles userId ''admin'')]
         in case write_error w (Upsert_user_roles userId ''admin'') of
           Some err \<Rightarrow> (t2 @ [Console_error ''UserManagement: Make admin error:'' (Err err)], Inl err)
         | None \<Rightarrow> (t2, Inr ())))"

definition makeAdmin_onSuccess :: "event list" where
  "makeAdmin_onSuccess =
    [InvalidateQueries [''adminUsers''],
     Toast \<lparr> title = ''Success'', description = ''User has been made an admin.'', variant = None \<rparr>]"

definition makeAdmin_onError :: "js_error \<Rightarrow> event list" where
  "makeAdmin_onError err =
    [Toast \<lparr> title = ''Error'', description = js_or (message err) ''Failed to make user admin.'',
             variant = Some ''destructive'' \<rparr>]"

definition makeAdminMutation :: "world \<Rightarrow> string \<Rightarrow> event list" where
  "makeAdminMutation w = useMutation (makeAdmin_mutationFn w) makeAdmin_onSuccess makeAdmin_onError"

definition removeAdmin_mutationFn :: "world \<Rightarrow> string \<Rightarrow> event list \<times> (js_error + unit)" where
  "removeAdmin_mutationFn w userId =
    (let t1 = [Console_log ''UserManagement: Removing admin from user:'' (Str userId), Auth_getSession]
     in case getSession w of
       None \<Rightarrow> (t1, Inl (Error (Some ''No authenticated session found'')))
     | Some session \<Rightarrow>
        (let t2 = t1 @ [Write (Delete_user_roles userId ''admin'')]
         in case write_error w (Delete_user_roles userId ''admin'') of
           Some err \<Rightarrow> (t2 @ [Console_error ''UserManagement: Remove admin error:'' (Err err)], Inl err)
         | None \<Rightarrow> (t2, Inr ())))"

definition removeAdmin_onSuccess :: "event list" where
  "removeAdmin_onSuccess =
    [InvalidateQueries [''adminUsers''],
     Toast \<lparr> title = ''Success'', description = ''Admin privileges removed.'', variant = None \<rparr>]"

definition removeAdmin_onError :: "js_error \<Rightarrow> event list" where
  "removeAdmin_onError err =
    [Toast \<lparr> title = ''Error'', description = js_or (message err) ''Failed to remove admin privileges.'',
             variant = Some ''destructive'' \<rparr>]"

definition removeAdminMutation :: "world \<Rightarrow> string \<Rightarrow> event list" where
  "removeAdminMutation w = useMutation (removeAdmin_mutationFn w) removeAdmin_onSuccess removeAdmin_onError"

text \<open>
  The ban takes \<open>{ userId, reason }\<close>, a pair here. \<open>userId === user?.id\<close> compares a
  string with a string or undefined: it holds exactly when the caller is known and has
  that id.
\<close>

definition banUser_mutationFn ::
  "world \<Rightarrow> auth_user option \<Rightarrow> string \<times> string \<Rightarrow> event list \<times> (js_error + unit)" where
  "banUser_mutationFn w user vars =
    (case vars of (userId, reason) \<Rightarrow>
      (let t1 = [Console_log ''UserManagement: Banning user:'' (Str userId), Auth_getSession]
       in case getSession w of
         None \<Rightarrow> (t1, Inl (Error (Some ''No authenticated session found'')))
       | Some session \<Rightarrow>
          if Some userId = map_option caller_id user
          then (t1, Inl (Error (Some ''You cannot ban yourself'')))
          else
            (let req = Insert_user_bans userId (map_option caller_id user)
                         (if reason \<noteq> [] then reason else ''No reason provided'') True;
                 t2 = t1 @ [Write req]
             in case write_error w req of
               Some err \<Rightarrow> (t2 @ [Console_error ''UserManagement: Ban user error:'' (Err err)], Inl err)
             | None \<Rightarrow> (t2, Inr ()))))"

definition banUser_onSuccess :: "event list" where
  "banUser_onSuccess =
    [InvalidateQueries [''adminUsers''],
     Toast \<lparr> title = ''Success'', description = ''User has been banned.'', variant = None \<rparr>]"

definition banUser_onError :: "js_error \<Rightarrow> event list" where
  "banUser_onError err =
    [Toast \<lparr> title = ''Error'', description = js_or (message err) ''Failed to ban user.'',
             variant = Some ''destructive'' \<rparr>]"

definition banUserMutation :: "world \<Rightarrow> auth_user option \<Rightarrow> string \<times> string \<Rightarrow> event list" where
  "banUserMutation w user = useMutation (banUser_mutationFn w user) banUser_onSuccess banUser_onError"

definition unbanUser_mutationFn :: "world \<Rightarrow> string \<Rightarrow> event list \<times> (js_error + unit)" where
  "unbanUser_mutationFn w userId =
    (let t1 = [Console_log ''UserManagement: Unbanning user:'' (Str userId), Auth_getSession]
     in case getSession w of
       None \<Rightarrow> (t1, Inl (Error (Some ''No authenticated session found'')))
     | Some session \<Rightarrow>
        (let req = Update_user_bans False (fst (date_now w)) (snd (date_now w)) userId True;
             t2 = t1 @ [Write req]
         in case write_error w req of
           Some err \<Rightarrow> (t2 @ [Console_error ''UserManagement: Unban user error:'' (Err err)], Inl err)
         | None \<Rightarrow> (t2, Inr ())))"

definition unbanUser_onSuccess :: "event list" where
  "unbanUser_onSuccess =
    [InvalidateQueries [''adminUsers''],
     Toast \<lparr> title = ''Success'', description = ''User has been unbanned.'', variant = None \<rparr>]"

definition unbanUser_onError :: "js_error \<Rightarrow> event list" where
  "unbanUser_onError err =
    [Toast \<lparr> title = ''Error'', description = js_or (message err) ''Failed to unban user.'',
             variant = Some ''destructive'' \<rparr>]"

definition unbanUserMutation :: "world \<Rightarrow> string \<Rightarrow> event list" where
  "unbanUserMutation w = useMutation (unbanUser_mutationFn w) unbanUser_onSuccess unbanUser_onError"

subsection \<open>The query cache and the notifications\<close>

text \<open>
  The cache of the query library holds one entry per query key; the directory's key is
  \<open>['adminUsers', searchTerm]\<close>. \<open>invalidateQueries({ queryKey })\<close> marks every entry whose
  key starts with \<open>queryKey\<close>. A toast is appended to the notifications shown.
\<close>

record 'd query_entry =
  entry_data :: 'd
  isInvalidated :: bool

record 'd ui =
  queries :: "string list \<Rightarrow> 'd query_entry option"
  toasts :: "toast list"

definition invalidateQueries ::
  "string list \<Rightarrow> (string list \<Rightarrow> 'd query_entry option) \<Rightarrow> string list \<Rightarrow> 'd query_entry option" where
  "invalidateQueries queryKey qc =
    (\<lambda>k. if take (length queryKey) k = queryKey
         then map_option (\<lambda>e. e\<lparr> isInvalidated := True \<rparr>) (qc k)
         else qc k)"

fun effect :: "event \<Rightarrow> 'd ui \<Rightarrow> 'd ui" where
  "effect (InvalidateQueries k) u = u\<lparr> queries := invalidateQueries k (queries u) \<rparr>"
| "effect (Toast t) u = u\<lparr> toasts := toasts u @ [t] \<rparr>"
| "effect e u = u"

definition run_effects :: "event list \<Rightarrow> 'd ui \<Rightarrow> 'd ui" where
  "run_effects es u = fold effect es u"

subsection \<open>Vocabulary of the properties\<close>

text \<open>Which events of a run are requests to the remote store.\<close>

fun is_store_request :: "event \<Rightarrow> bool" where
  "is_store_request (Select q) = True"
| "is_store_request (Write q) = True"
| "is_store_request e = False"

fun is_satellite_select :: "event \<Rightarrow> bool" where
  "is_satellite_select (Select (Profiles f)) = False"
| "is_satellite_select (Select q) = True"
| "is_satellite_select e = False"

fun is_invalidation :: "event \<Rightarrow> bool" where
  "is_invalidation (InvalidateQueries k) = True"
| "is_invalidation e = False"

fun is_success_toast :: "event \<Rightarrow> bool" where
  "is_success_toast (Toast t) = (title t = ''Success'')"
| "is_success_toast e = False"

text \<open>The filter of the profile select: none when the search term is the empty string.\<close>

definition profileQuery_of :: "string \<Rightarrow> string option" where
  "profileQuery_of searchTerm = (if searchTerm \<noteq> [] then Some searchTerm else None)"

text \<open>The rows a response delivers: those of its data, none when the data is null.\<close>

definition rows :: "'a response \<Rightarrow> 'a list" where
  "rows r = (case data r of None \<Rightarrow> [] | Some xs \<Rightarrow> xs)"

text \<open>A failed select carries an error and null data; a select without rows carries the empty list.\<close>

definition failed :: "'a response \<Rightarrow> bool" where
  "failed r = (error r \<noteq> None \<and> data r = None)"

definition no_rows :: "'a response" where
  "no_rows = \<lparr> data = Some [], error = None \<rparr>"

text \<open>
  The four operations as one type, with the write each issues, its success text and its
  fallback failure text, read off the four mutation objects.
\<close>

datatype mutation = MakeAdmin string | RemoveAdmin string | BanUser string string | UnbanUser string

fun run_mutation :: "world \<Rightarrow> auth_user option \<Rightarrow> mutation \<Rightarrow> event list" where
  "run_mutation w user (MakeAdmin userId) = makeAdminMutation w userId"
| "run_mutation w user (RemoveAdmin userId) = removeAdminMutation w userId"
| "run_mutation w user (BanUser userId reason) = banUserMutation w user (userId, reason)"
| "run_mutation w user (UnbanUser userId) = unbanUserMutation w userId"

fun write_of :: "world \<Rightarrow> auth_user option \<Rightarrow> mutation \<Rightarrow> write_request" where
  "write_of w user (MakeAdmin userId) = Upsert_user_roles userId ''admin''"
| "write_of w user (RemoveAdmin userId) = Delete_user_roles userId ''admin''"
| "write_of w user (BanUser userId reason) =
     Insert_user_bans userId (map_option caller_id user)
       (if reason \<noteq> [] then reason else ''No reason provided'') True"
| "write_of w user (UnbanUser userId) =
     Update_user_bans False (fst (date_now w)) (snd (date_now w)) userId True"

fun success_text :: "mutation \<Rightarrow> string" where
  "success_text (MakeAdmin userId) = ''User has been made an admin.''"
| "success_text (RemoveAdmin userId) = ''Admin privileges removed.''"
| "success_text (BanUser userId reason) = ''User has been banned.''"
| "success_text (UnbanUser userId) = ''User has been unbanned.''"

fun fallback_text :: "mutation \<Rightarrow> string" where
  "fallback_text (MakeAdmin userId) = ''Failed to make user admin.''"
| "fallback_text (RemoveAdmin userId) = ''Failed to remove admin privileges.''"
| "fallback_text (BanUser userId reason) = ''Failed to ban user.''"
| "fallback_text (UnbanUser userId) = ''Failed to unban user.''"

fun is_self_ban :: "auth_user option \<Rightarrow> mutation \<Rightarrow> bool" where
  "is_self_ban user (BanUser userId reason) = (Some userId = map_option caller_id user)"
| "is_self_ban user m = False"

text \<open>A store used in the examples: no session, every select without rows, every write accepted.\<close>

definition quiet_world :: world where
  "quiet_world =
    \<lparr> getSession = None,
      from_profiles = (\<lambda>f. no_rows),
      from_user_roles = (\<lambda>ids. no_rows),
      from_user_credits = (\<lambda>ids. no_rows),
      from_user_social_accounts = (\<lambda>ids. no_rows),
      from_user_wallets = (\<lambda>ids. no_rows),
      from_user_bans = (\<lambda>ids a. no_rows),
      write_error = (\<lambda>q. None),
      date_now = (''2024-01-01T00:00:00.000Z'', ''2024-01-01T00:00:00.001Z'') \<rparr>"

section \<open>The board renderer (EnhancedGameBoard.tsx)\<close>

subsection \<open>Inputs\<close>

text \<open>
  Modelled from the spec: the enumeration \<open>TileType\<close> and the type \<open>AnimationEvent\<close> are
  imported by the component from files that are not part of these sources. The tile kinds
  are the members the component names, \<open>OTHER\<close> standing for any further member (the
  \<open>default\<close> branch of the glyph switch); an animation event has an id, a kind, the
  cells it affects and an optional multiplier, its kind a string (\<open>match\<close>, \<open>drop\<close>,
  \<open>invalid\<close>, \<open>cascade\<close>).
\<close>

datatype TileType =
    POOP | TOILET | TOILET_PAPER | FART | BANANA | BELL
  | STRIPED_HORIZONTAL | STRIPED_VERTICAL | WRAPPED | COLOR_BOMB
  | BLOCKED | EMPTY | OTHER nat

text \<open>
  A cell \<open>{row, col}\<close>; its fields are \<open>cell_row\<close> and \<open>cell_col\<close> here, \<open>row\<close> and \<open>col\<close>
  being the parameters of the component's functions. Coordinates are array indices.
\<close>

record cell =
  cell_row :: nat
  cell_col :: nat

record 'n AnimationEvent =
  anim_id :: string
  type :: string
  tiles :: "cell list option"
  cascadeMultiplier :: "'n option"

text \<open>
  The props, nullable where the component tests for null: the board, its rows, the
  selected cell, the animation list. The callback \<open>onTileClick\<close> is represented by the
  calls made to it.
\<close>

record 'n props =
  board :: "TileType list option list option"
  selectedTile :: "cell option"
  hintTiles :: "cell list"
  animations :: "'n AnimationEvent list option"

datatype js_exception = TypeError

subsection \<open>The component's functions\<close>

text \<open>Glyphs are sequences of Unicode code points.\<close>

fun getTileEmoji :: "TileType \<Rightarrow> nat list" where
  "getTileEmoji POOP = [0x1F4A9]"
| "getTileEmoji TOILET = [0x1F6BD]"
| "getTileEmoji TOILET_PAPER = [0x1F9FB]"
| "getTileEmoji FART = [0x1F4A8]"
| "getTileEmoji BANANA = [0x1F34C]"
| "getTileEmoji BELL = [0x1F514]"
| "getTileEmoji STRIPED_HORIZONTAL = [0x1F4A9, 0x26A1]"
| "getTileEmoji STRIPED_VERTICAL = [0x1F4A9, 0x2B06, 0xFE0F]"
| "getTileEmoji WRAPPED = [0x1F4A9, 0x1F4A5]"
| "getTileEmoji COLOR_BOMB = [0x1F4A9, 0x1F308]"
| "getTileEmoji BLOCKED = [0x1F6AB]"
| "getTileEmoji EMPTY = []"
| "getTileEmoji (OTHER k) = [0x1F4A9]"

definition getTileClassName :: "bool \<Rightarrow> 'n props \<Rightarrow> nat \<Rightarrow> nat \<Rightarrow> TileType \<Rightarrow> string" where
  "getTileClassName isMobile p row col tile =
    (let baseSize = (if isMobile then ''w-10 h-10'' else ''w-12 h-12'');
         textSize = (if isMobile then ''text-xl'' else ''text-2xl'');
         className = baseSize @ '' flex items-center justify-center '' @ textSize
                       @ '' rounded-lg border-2 cursor-pointer transition-all duration-200 '';
         className = className @
           (if (case selectedTile p of None \<Rightarrow> False
                | Some sel \<Rightarrow> cell_row sel = row \<and> cell_col sel = col)
            then ''border-yellow-400 bg-yellow-900/50 shadow-lg shadow-yellow-500/50 ''
            else if list_ex (\<lambda>hint. cell_row hint = row \<and> cell_col hint = col) (hintTiles p)
            then ''border-green-400 bg-green-900/30 animate-pulse ''
            else if tile = BLOCKED
            then ''border-gray-600 bg-gray-800 cursor-not-allowed ''
            else if tile = EMPTY
            then ''border-gray-700 bg-gray-900/30 cursor-default ''
            else ''border-gray-600 bg-gray-800/50 hover:bg-gray-700/50 hover:border-gray-500 '');
         className = className @
           (if tile = STRIPED_HORIZONTAL \<or> tile = STRIPED_VERTICAL
            then ''shadow-lg shadow-blue-500/30 ''
            else if tile = WRAPPED
            then ''shadow-lg shadow-purple-500/30 ''
            else if tile = COLOR_BOMB
            then ''shadow-lg shadow-rainbow animate-pulse ''
            else [])
     in className)"

text \<open>
  The click handler, as the calls it makes to \<open>onTileClick\<close>. \<open>board[row][col]\<close> throws
  when \<open>board[row]\<close> is null or undefined, and is undefined (neither blocked nor empty)
  when only \<open>col\<close> is out of range.
\<close>

definition handleTileClick :: "'n props \<Rightarrow> nat \<Rightarrow> nat \<Rightarrow> js_exception + (nat \<times> nat) list" where
  "handleTileClick p row col =
    (case board p of
       None \<Rightarrow> Inl TypeError
     | Some b \<Rightarrow>
        if row < length b then
          (case b ! row of
             None \<Rightarrow> Inl TypeError
           | Some r \<Rightarrow>
              if col < length r \<and> (r ! col = BLOCKED \<or> r ! col = EMPTY) then Inr []
              else Inr [(row, col)])
        else Inl TypeError)"

definition getAnimationClasses :: "'n props \<Rightarrow> nat \<Rightarrow> nat \<Rightarrow> string" where
  "getAnimationClasses p row col =
    (case animations p of
       None \<Rightarrow> []
     | Some anims \<Rightarrow>
        if length anims = 0 then []
        else
          (let relevantAnimations =
                 filter (\<lambda>anim. case tiles anim of
                                  None \<Rightarrow> False
                                | Some ts \<Rightarrow> list_ex (\<lambda>tile. cell_row tile = row \<and> cell_col tile = col) ts)
                   anims
           in if length relevantAnimations = 0 then []
              else
                (let latestAnimation = relevantAnimations ! (length relevantAnimations - 1)
                 in if type latestAnimation = ''match'' then ''animate-ping ''
                    else if type latestAnimation = ''drop'' then ''animate-bounce ''
                    else if type latestAnimation = ''invalid'' then ''animate-pulse ''
                    else [])))"

subsection \<open>The rendered tree\<close>

text \<open>Decimal text of an index, as a template literal prints it.\<close>

fun show_nat :: "nat \<Rightarrow> string" where
  "show_nat n =
    (if n < 10 then [''0123456789'' ! n]
     else show_nat (n div 10) @ [''0123456789'' ! (n mod 10)])"

declare show_nat.simps [simp del]

text \<open>
  One tile of the grid: its key, class, the outcome of its click handler, its title
  (\<open>tile_title\<close> here) and the glyph it contains.
\<close>

record cell_view =
  key :: string
  className :: string
  onClick :: "js_exception + (nat \<times> nat) list"
  tile_title :: string
  children :: "nat list"

text \<open>
  The line under the grid for one animation event. The cascade line prints the
  multiplier to one decimal, or 1 when there is none; it is kept here as the value
  printed.
\<close>

datatype 'n caption_text = Cascade "'n option" | Match_found | Invalid_move

record 'n caption =
  caption_key :: string
  caption_children :: "'n caption_text list"

record 'n grid_view =
  grid_className :: string
  cells :: "cell_view list list"
  captions :: "'n caption list option"

datatype 'n view = Loading | Grid "'n grid_view"

definition EnhancedGameBoard :: "bool \<Rightarrow> 'n props \<Rightarrow> js_exception + 'n view" where
  "EnhancedGameBoard isMobile p =
    (case board p of
       None \<Rightarrow> Inr Loading
     | Some b \<Rightarrow>
        if length b = 0 then Inr Loading
        else
          (case b ! 0 of
             None \<Rightarrow> Inr Loading
           | Some row0 \<Rightarrow>
              if length row0 = 0 then Inr Loading
              else
                (let gridGap = (if isMobile then ''gap-2'' else ''gap-1'');
                     containerPadding = (if isMobile then ''p-2'' else ''p-4'')
                 in if list_ex (\<lambda>r. r = None) b then Inl TypeError
                    else Inr (Grid
                      \<lparr> grid_className = ''grid grid-cols-8 '' @ gridGap @ '' '' @ containerPadding
                            @ '' bg-gray-900/30 rounded-lg border border-gray-700'',
                        cells =
                          map (\<lambda>(rowIndex, r).
                            map (\<lambda>(colIndex, tile).
                              \<lparr> key = show_nat rowIndex @ ''-'' @ show_nat colIndex,
                                className = getTileClassName isMobile p rowIndex colIndex tile
                                  @ '' '' @ getAnimationClasses p rowIndex colIndex,
                                onClick = handleTileClick p rowIndex colIndex,
                                tile_title = ''Row '' @ show_nat (rowIndex + 1) @ '', Col '' @ show_nat (colIndex + 1),
                                children = getTileEmoji tile \<rparr>)
                              (enumerate 0 (the r)))
                            (enumerate 0 b),
                        captions =
                          (case animations p of
                             None \<Rightarrow> None
                           | Some anims \<Rightarrow>
                              if length anims > 0 then
                                Some (map (\<lambda>anim.
                                  \<lparr> caption_key = anim_id anim,
                                    caption_children =
                                      (if type anim = ''cascade'' then [Cascade (cascadeMultiplier anim)] else [])
                                      @ (if type anim = ''match'' then [Match_found] else [])
                                      @ (if type anim = ''invalid'' then [Invalid_move] else []) \<rparr>) anims)
                              else None) \<rparr>))))"

subsection \<open>Vocabulary of the renderer's properties\<close>

text \<open>An event affects a cell when its cell list is present and contains the cell.\<close>

definition affects :: "'n AnimationEvent \<Rightarrow> nat \<Rightarrow> nat \<Rightarrow> bool" where
  "affects anim row col =
    (case tiles anim of
       None \<Rightarrow> False
     | Some ts \<Rightarrow> (\<exists>t\<in>set ts. cell_row t = row \<and> cell_col t = col))"

text \<open>The effect of a kind: match flashes, drop bounces, invalid pulses, the others do nothing.\<close>

definition effect_of_kind :: "string \<Rightarrow> string" where
  "effect_of_kind k =
    (if k = ''match'' then ''animate-ping ''
     else if k = ''drop'' then ''animate-bounce ''
     else if k = ''invalid'' then ''animate-pulse ''
     else [])"

text \<open>
  The five base visual states, the classes that show each, and the precedence of the
  spec: a state applies to a cell as below, and the state of highest rank that applies
  is the one shown.
\<close>

datatype visual_state = Selected | Hinted | Blocked | Empty_state | Ordinary

fun state_classes :: "visual_state \<Rightarrow> string" where
  "state_classes Selected = ''border-yellow-400 bg-yellow-900/50 shadow-lg shadow-yellow-500/50 ''"
| "state_classes Hinted = ''border-green-400 bg-green-900/30 animate-pulse ''"
| "state_classes Blocked = ''border-gray-600 bg-gray-800 cursor-not-allowed ''"
| "state_classes Empty_state = ''border-gray-700 bg-gray-900/30 cursor-default ''"
| "state_classes Ordinary = ''border-gray-600 bg-gray-800/50 hover:bg-gray-700/50 hover:border-gray-500 ''"

fun rank :: "visual_state \<Rightarrow> nat" where
  "rank Selected = 4"
| "rank Hinted = 3"
| "rank Blocked = 2"
| "rank Empty_state = 1"
| "rank Ordinary = 0"

definition is_selected :: "'n props \<Rightarrow> nat \<Rightarrow> nat \<Rightarrow> bool" where
  "is_selected p row col = (selectedTile p = Some \<lparr> cell_row = row, cell_col = col \<rparr>)"

definition is_hinted :: "'n props \<Rightarrow> nat \<Rightarrow> nat \<Rightarrow> bool" where
  "is_hinted p row col = (\<lparr> cell_row = row, cell_col = col \<rparr> \<in> set (hintTiles p))"

fun applies :: "'n props \<Rightarrow> nat \<Rightarrow> nat \<Rightarrow> TileType \<Rightarrow> visual_state \<Rightarrow> bool" where
  "applies p row col tile Selected = is_selected p row col"
| "applies p row col tile Hinted = is_hinted p row col"
| "applies p row col tile Blocked = (tile = BLOCKED)"
| "applies p row col tile Empty_state = (tile = EMPTY)"
| "applies p row col tile Ordinary = True"

text \<open>The size classes in front of a tile's class, and the accent behind its state.\<close>

definition size_classes :: "bool \<Rightarrow> string" where
  "size_classes isMobile =
    (if isMobile then ''w-10 h-10'' else ''w-12 h-12'') @ '' flex items-center justify-center ''
    @ (if isMobile then ''text-xl'' else ''text-2xl'')"

definition accent_classes :: "TileType \<Rightarrow> string" where
  "accent_classes tile =
    (if tile = STRIPED_HORIZONTAL \<or> tile = STRIPED_VERTICAL then ''shadow-lg shadow-blue-500/30 ''
     else if tile = WRAPPED then ''shadow-lg shadow-purple-500/30 ''
     else if tile = COLOR_BOMB then ''shadow-lg shadow-rainbow animate-pulse ''
     else [])"

text \<open>The degenerate boards: null, no rows, a null first row, a first row of length zero.\<close>

definition degenerate :: "TileType list option list option \<Rightarrow> bool" where
  "degenerate b =
    (case b of
       None \<Rightarrow> True
     | Some [] \<Rightarrow> True
     | Some (None # rs) \<Rightarrow> True
     | Some (Some r # rs) \<Rightarrow> r = [])"

text \<open>
  Two tiles, the first of the mobile run and the second of the desktop run, agree up to
  the size classes: same key, click outcome, title and glyph, and the same class
  behind the size classes of each run.
\<close>

definition same_tile_up_to_size :: "cell_view \<Rightarrow> cell_view \<Rightarrow> bool" where
  "same_tile_up_to_size m d =
    (key m = key d \<and> onClick m = onClick d \<and> tile_title m = tile_title d \<and> children m = children d
     \<and> (\<exists>rest. className m = size_classes True @ rest \<and> className d = size_classes False @ rest))"

fun same_up_to_size :: "js_exception + 'n view \<Rightarrow> js_exception + 'n view \<Rightarrow> bool" where
  "same_up_to_size (Inl e) (Inl e') = (e = e')"
| "same_up_to_size (Inr Loading) (Inr Loading) = True"
| "same_up_to_size (Inr (Grid m)) (Inr (Grid d)) =
     (list_all2 (list_all2 same_tile_up_to_size) (cells m) (cells d)
      \<and> captions m = captions d
      \<and> grid_className m = ''grid grid-cols-8 gap-2 p-2 bg-gray-900/30 rounded-lg border border-gray-700''
      \<and> grid_className d = ''grid grid-cols-8 gap-1 p-4 bg-gray-900/30 rounded-lg border border-gray-700'')"
| "same_up_to_size x y = False"

text \<open>The state the precedence order selected > hinted > blocked > empty > ordinary picks.\<close>

definition precedence_state :: "'n props \<Rightarrow> nat \<Rightarrow> nat \<Rightarrow> TileType \<Rightarrow> visual_state" where
  "precedence_state p row col tile =
    (if is_selected p row col then Selected
     else if is_hinted p row col then Hinted
     else if tile = BLOCKED then Blocked
     else if tile = EMPTY then Empty_state
     else Ordinary)"

subsection \<open>Stores and props used in the examples\<close>

definition signed_in_world :: world where
  "signed_in_world = quiet_world\<lparr> getSession := Some ''tok'' \<rparr>"

definition refusing_world :: world where
  "refusing_world = signed_in_world\<lparr> write_error := (\<lambda>q. Some (Error (Some ''permission denied''))) \<rparr>"

definition alice :: profile where
  "alice = \<lparr> profile_id = ''1'', username = ''alice'', full_name = ''Alice A'', created_at = ''2024-03-01'' \<rparr>"

definition bob :: profile where
  "bob = \<lparr> profile_id = ''2'', username = ''bob'', full_name = ''Bob B'', created_at = ''2024-02-01'' \<rparr>"

definition bob_ban :: ban_row where
  "bob_ban = \<lparr> user_id = ''2'', ban_reason = ''spam'', banned_at = ''2024-02-02'', is_active = True \<rparr>"

text \<open>Two profiles, one role of the first, one active ban of the second; the credit select fails.\<close>

definition directory_world :: world where
  "directory_world =
    \<lparr> getSession = Some ''tok'',
      from_profiles = (\<lambda>f. \<lparr> data = Some [alice, bob], error = None \<rparr>),
      from_user_roles = (\<lambda>ids. \<lparr> data = Some [\<lparr> user_id = ''1'', role = ''admin'' \<rparr>], error = None \<rparr>),
      from_user_credits = (\<lambda>ids. \<lparr> data = None, error = Some (Error (Some ''timeout'')) \<rparr>),
      from_user_social_accounts = (\<lambda>ids. no_rows),
      from_user_wallets = (\<lambda>ids. no_rows),
      from_user_bans = (\<lambda>ids a. \<lparr> data = Some [bob_ban], error = None \<rparr>),
      write_error = (\<lambda>q. None),
      date_now = (''2024-01-01T00:00:00.000Z'', ''2024-01-01T00:00:00.001Z'') \<rparr>"

text \<open>The same store with no ban at all.\<close>

definition unbanned_world :: world where
  "unbanned_world = directory_world\<lparr> from_user_bans := (\<lambda>ids a. no_rows) \<rparr>"

text \<open>A cache with the directory cached for two search terms and another query beside it.\<close>

definition example_ui :: "unit ui" where
  "example_ui =
    \<lparr> queries = (\<lambda>k. if k = [''adminUsers'', []] \<or> k = [''adminUsers'', ''bob''] \<or> k = [''settings'']
                     then Some \<lparr> entry_data = (), isInvalidated = False \<rparr> else None),
      toasts = [] \<rparr>"

text \<open>
  A board of three rows and four columns with cell (2,3) selected and hinted, cell (1,1)
  hinted, and two animation events on cell (2,3), of kinds invalid then match.
\<close>

definition invalid_event :: "nat AnimationEvent" where
  "invalid_event =
    \<lparr> anim_id = ''a1'', type = ''invalid'',
      tiles = Some [\<lparr> cell_row = 2, cell_col = 3 \<rparr>], cascadeMultiplier = None \<rparr>"

definition match_event :: "nat AnimationEvent" where
  "match_event =
    \<lparr> anim_id = ''a2'', type = ''match'',
      tiles = Some [\<lparr> cell_row = 0, cell_col = 0 \<rparr>, \<lparr> cell_row = 2, cell_col = 3 \<rparr>],
      cascadeMultiplier = None \<rparr>"

definition example_props :: "nat props" where
  "example_props =
    \<lparr> board = Some [Some [POOP, TOILET, FART, BELL],
                    Some [BANANA, BLOCKED, EMPTY, WRAPPED],
                    Some [POOP, COLOR_BOMB, TOILET, BLOCKED]],
      selectedTile = Some \<lparr> cell_row = 2, cell_col = 3 \<rparr>,
      hintTiles = [\<lparr> cell_row = 2, cell_col = 3 \<rparr>, \<lparr> cell_row = 1, cell_col = 1 \<rparr>],
      animations = Some [invalid_event, match_event] \<rparr>"

text \<open>A board whose first row has length zero and whose second row is null.\<close>

definition degenerate_props :: "nat props" where
  "degenerate_props = example_props\<lparr> board := Some [Some [], None] \<rparr>"

section \<open>Properties of the user directory hook\<close>

subsection \<open>Auxiliary facts\<close>

lemma find_conj_all:
  "\<forall>x\<in>set xs. P x \<Longrightarrow> find (\<lambda>x. P x \<and> Q x) xs = find Q xs"
  by (induction xs) auto

lemma queryFn_result:
  assumes "getSession w = Some s"
    and "from_profiles w (profileQuery_of searchTerm) = \<lparr> data = Some profiles, error = None \<rparr>"
  shows "snd (queryFn w user searchTerm) =
     Inr (map (\<lambda>p.
        \<lparr> profile_id = profile_id p, username = username p,
          full_name = full_name p, created_at = created_at p,
          user_roles = filter (\<lambda>r. user_id r = profile_id p) (rows (from_user_roles w (map profile_id profiles))),
          user_credits = filter (\<lambda>r. user_id r = profile_id p) (rows (from_user_credits w (map profile_id profiles))),
          social_accounts = filter (\<lambda>r. user_id r = profile_id p) (rows (from_user_social_accounts w (map profile_id profiles))),
          wallets = filter (\<lambda>r. user_id r = profile_id p) (rows (from_user_wallets w (map profile_id profiles))),
          ban_info = find (\<lambda>r. user_id r = profile_id p) (rows (from_user_bans w (map profile_id profiles) True)) \<rparr>) profiles)"
  using assms
  by (cases "profiles = []")
     (simp_all add: queryFn_def profileQuery_of_def Let_def rows_def split: option.splits)

lemma queryFn_bans_select:
  assumes "getSession w = Some s"
    and "from_profiles w (profileQuery_of searchTerm) = \<lparr> data = Some profiles, error = None \<rparr>"
    and "profiles \<noteq> []"
  shows "Select (User_bans (map profile_id profiles) True) \<in> set (fst (queryFn w user searchTerm))"
  using assms by (simp add: queryFn_def profileQuery_of_def Let_def)

lemma rows_failed: "failed r \<Longrightarrow> rows r = []"
  by (simp add: failed_def rows_def)

lemma rows_no_rows: "rows no_rows = []"
  by (simp add: no_rows_def rows_def)

lemmas mutation_defs =
  useMutation_def run_effects_def
  makeAdminMutation_def makeAdmin_mutationFn_def makeAdmin_onSuccess_def makeAdmin_onError_def
  removeAdminMutation_def removeAdmin_mutationFn_def removeAdmin_onSuccess_def removeAdmin_onError_def
  banUserMutation_def banUser_mutationFn_def banUser_onSuccess_def banUser_onError_def
  unbanUserMutation_def unbanUser_mutationFn_def unbanUser_onSuccess_def unbanUser_onError_def

lemma invalidate_adminUsers:
  "invalidateQueries [''adminUsers''] qc [''adminUsers'', t]
     = map_option (\<lambda>e. e\<lparr> isInvalidated := True \<rparr>) (qc [''adminUsers'', t])"
  by (simp add: invalidateQueries_def)

subsection \<open>The merge\<close>

text \<open>
  C1. When a session exists and the profile select resolves without an error to a list
  of profiles, the fetch returns one merged record per profile, in the order of the
  profiles: the profile's own fields, each of \<open>user_roles\<close>, \<open>user_credits\<close>,
  \<open>social_accounts\<close> and \<open>wallets\<close> the sublist, in order, of the rows of the corresponding
  select whose \<open>user_id\<close> is the profile's id (empty when none matches), and \<open>ban_info\<close>
  the first row of the ban select whose \<open>user_id\<close> is the profile's id, null when none
  matches. The ban select is the one issued with the filter \<open>is_active = true\<close>; when its
  rows are all active, as that filter asks, \<open>ban_info\<close> is the first active ban row of
  the profile's id.
\<close>

theorem fetch_merges:
  assumes "getSession w = Some s"
    and "from_profiles w (profileQuery_of searchTerm) = \<lparr> data = Some profiles, error = None \<rparr>"
  shows "\<exists>users. snd (queryFn w user searchTerm) = Inr users
     \<and> users = map (\<lambda>p.
          \<lparr> profile_id = profile_id p, username = username p,
            full_name = full_name p, created_at = created_at p,
            user_roles = filter (\<lambda>r. user_id r = profile_id p)
                           (rows (from_user_roles w (map profile_id profiles))),
            user_credits = filter (\<lambda>r. user_id r = profile_id p)
                           (rows (from_user_credits w (map profile_id profiles))),
            social_accounts = filter (\<lambda>r. user_id r = profile_id p)
                           (rows (from_user_social_accounts w (map profile_id profiles))),
            wallets = filter (\<lambda>r. user_id r = profile_id p)
                           (rows (from_user_wallets w (map profile_id profiles))),
            ban_info = find (\<lambda>r. user_id r = profile_id p)
                           (rows (from_user_bans w (map profile_id profiles) True)) \<rparr>) profiles
     \<and> (profiles \<noteq> [] \<longrightarrow>
          Select (User_bans (map profile_id profiles) True) \<in> set (fst (queryFn w user searchTerm)))
     \<and> ((\<forall>b\<in>set (rows (from_user_bans w (map profile_id profiles) True)). is_active b) \<longrightarrow>
          map ban_info users
            = map (\<lambda>p. find (\<lambda>b. is_active b \<and> user_id b = profile_id p)
                          (rows (from_user_bans w (map profile_id profiles) True))) profiles)"
  using queryFn_result [OF assms, of user] queryFn_bans_select [OF assms, of user]
  by (simp add: find_conj_all comp_def)

theorem fetch_merges_witness:
  "snd (queryFn directory_world None []) =
     Inr [\<lparr> profile_id = ''1'', username = ''alice'', full_name = ''Alice A'', created_at = ''2024-03-01'',
            user_roles = [\<lparr> user_id = ''1'', role = ''admin'' \<rparr>], user_credits = [],
            social_accounts = [], wallets = [], ban_info = None \<rparr>,
          \<lparr> profile_id = ''2'', username = ''bob'', full_name = ''Bob B'', created_at = ''2024-02-01'',
            user_roles = [], user_credits = [],
            social_accounts = [], wallets = [], ban_info = Some bob_ban \<rparr>]
   \<and> snd (queryFn unbanned_world None []) =
     Inr [\<lparr> profile_id = ''1'', username = ''alice'', full_name = ''Alice A'', created_at = ''2024-03-01'',
            user_roles = [\<lparr> user_id = ''1'', role = ''admin'' \<rparr>], user_credits = [],
            social_accounts = [], wallets = [], ban_info = None \<rparr>,
          \<lparr> profile_id = ''2'', username = ''bob'', full_name = ''Bob B'', created_at = ''2024-02-01'',
            user_roles = [], user_credits = [],
            social_accounts = [], wallets = [], ban_info = None \<rparr>]"
  using fetch_merges [of directory_world "''tok''" "[]" "[alice, bob]" None]
    fetch_merges [of unbanned_world "''tok''" "[]" "[alice, bob]" None]
  by (simp add: unbanned_world_def directory_world_def profileQuery_of_def rows_def no_rows_def
      alice_def bob_def bob_ban_def)

text \<open>
  C3. When a session exists and the profile select succeeds, the fetch does not abort
  whatever the satellite selects resolve to: it returns the merged list, one record per
  profile in the order of the profiles, each record holding the profile's fields, the
  rows of each satellite select whose \<open>user_id\<close> is the profile's id, and the first such
  row of the ban select. A satellite select that failed (an error, and null data)
  leaves its field empty in every record (null for \<open>ban_info\<close>) while the other fields
  keep the rows of their own selects, and the list returned is the one returned when
  that select resolves without rows instead.
\<close>

theorem satellite_failure_degrades:
  assumes "getSession w = Some s"
    and "from_profiles w (profileQuery_of searchTerm) = \<lparr> data = Some profiles, error = None \<rparr>"
  shows "\<exists>users. snd (queryFn w user searchTerm) = Inr users
     \<and> users = map (\<lambda>p.
          \<lparr> profile_id = profile_id p, username = username p,
            full_name = full_name p, created_at = created_at p,
            user_roles = filter (\<lambda>r. user_id r = profile_id p)
                           (rows (from_user_roles w (map profile_id profiles))),
            user_credits = filter (\<lambda>r. user_id r = profile_id p)
                           (rows (from_user_credits w (map profile_id profiles))),
            social_accounts = filter (\<lambda>r. user_id r = profile_id p)
                           (rows (from_user_social_accounts w (map profile_id profiles))),
            wallets = filter (\<lambda>r. user_id r = profile_id p)
                           (rows (from_user_wallets w (map profile_id profiles))),
            ban_info = find (\<lambda>r. user_id r = profile_id p)
                           (rows (from_user_bans w (map profile_id profiles) True)) \<rparr>) profiles
     \<and> length users = length profiles
     \<and> (failed (from_user_roles w (map profile_id profiles)) \<longrightarrow>
          rows (from_user_roles w (map profile_id profiles)) = []
        \<and> (\<forall>u\<in>set users. user_roles u = [])
        \<and> snd (queryFn (w\<lparr> from_user_roles := (\<lambda>ids. no_rows) \<rparr>) user searchTerm) = Inr users)
     \<and> (failed (from_user_credits w (map profile_id profiles)) \<longrightarrow>
          rows (from_user_credits w (map profile_id profiles)) = []
        \<and> (\<forall>u\<in>set users. user_credits u = [])
        \<and> snd (queryFn (w\<lparr> from_user_credits := (\<lambda>ids. no_rows) \<rparr>) user searchTerm) = Inr users)
     \<and> (failed (from_user_social_accounts w (map profile_id profiles)) \<longrightarrow>
          rows (from_user_social_accounts w (map profile_id profiles)) = []
        \<and> (\<forall>u\<in>set users. social_accounts u = [])
        \<and> snd (queryFn (w\<lparr> from_user_social_accounts := (\<lambda>ids. no_rows) \<rparr>) user searchTerm) = Inr users)
     \<and> (failed (from_user_wallets w (map profile_id profiles)) \<longrightarrow>
          rows (from_user_wallets w (map profile_id profiles)) = []
        \<and> (\<forall>u\<in>set users. wallets u = [])
        \<and> snd (queryFn (w\<lparr> from_user_wallets := (\<lambda>ids. no_rows) \<rparr>) user searchTerm) = Inr users)
     \<and> (failed (from_user_bans w (map profile_id profiles) True) \<longrightarrow>
          rows (from_user_bans w (map profile_id profiles) True) = []
        \<and> (\<forall>u\<in>set users. ban_info u = None)
        \<and> snd (queryFn (w\<lparr> from_user_bans := (\<lambda>ids a. no_rows) \<rparr>) user searchTerm) = Inr users)"
proof -
  let ?ids = "map profile_id profiles"
  have roles: "snd (queryFn (w\<lparr> from_user_roles := (\<lambda>ids. no_rows) \<rparr>) user searchTerm)
                 = snd (queryFn w user searchTerm)"
    if "failed (from_user_roles w ?ids)"
    using that assms
    by (simp add: queryFn_result [where s = s and profiles = profiles] rows_failed rows_no_rows)
  have credits: "snd (queryFn (w\<lparr> from_user_credits := (\<lambda>ids. no_rows) \<rparr>) user searchTerm)
                 = snd (queryFn w user searchTerm)"
    if "failed (from_user_credits w ?ids)"
    using that assms
    by (simp add: queryFn_result [where s = s and profiles = profiles] rows_failed rows_no_rows)
  have social: "snd (queryFn (w\<lparr> from_user_social_accounts := (\<lambda>ids. no_rows) \<rparr>) user searchTerm)
                 = snd (queryFn w user searchTerm)"
    if "failed (from_user_social_accounts w ?ids)"
    using that assms
    by (simp add: queryFn_result [where s = s and profiles = profiles] rows_failed rows_no_rows)
  have wallets: "snd (queryFn (w\<lparr> from_user_wallets := (\<lambda>ids. no_rows) \<rparr>) user searchTerm)
                 = snd (queryFn w user searchTerm)"
    if "failed (from_user_wallets w ?ids)"
    using that assms
    by (simp add: queryFn_result [where s = s and profiles = profiles] rows_failed rows_no_rows)
  have bans: "snd (queryFn (w\<lparr> from_user_bans := (\<lambda>ids a. no_rows) \<rparr>) user searchTerm)
                 = snd (queryFn w user searchTerm)"
    if "failed (from_user_bans w ?ids True)"
    using that assms
    by (simp add: queryFn_result [where s = s and profiles = profiles] rows_failed rows_no_rows)
  show ?thesis
    using roles credits social wallets bans
    by (simp add: queryFn_result [OF assms] rows_failed)
qed

theorem satellite_failure_degrades_witness:
  "failed (from_user_credits directory_world [''1'', ''2''])
   \<and> snd (queryFn directory_world None []) =
       Inr [\<lparr> profile_id = ''1'', username = ''alice'', full_name = ''Alice A'', created_at = ''2024-03-01'',
              user_roles = [\<lparr> user_id = ''1'', role = ''admin'' \<rparr>], user_credits = [],
              social_accounts = [], wallets = [], ban_info = None \<rparr>,
            \<lparr> profile_id = ''2'', username = ''bob'', full_name = ''Bob B'', created_at = ''2024-02-01'',
              user_roles = [], user_credits = [],
              social_accounts = [], wallets = [], ban_info = Some bob_ban \<rparr>]
   \<and> snd (queryFn (directory_world\<lparr> from_user_credits := (\<lambda>ids. no_rows) \<rparr>) None [])
       = snd (queryFn directory_world None [])"
proof -
  have session: "getSession directory_world = Some ''tok''"
    by (simp add: directory_world_def)
  have profiles: "from_profiles directory_world (profileQuery_of []) = \<lparr> data = Some [alice, bob], error = None \<rparr>"
    by (simp add: directory_world_def)
  have failure: "failed (from_user_credits directory_world [''1'', ''2''])"
    by (simp add: directory_world_def failed_def)
  have ids: "map profile_id [alice, bob] = [''1'', ''2'']"
    by (simp add: alice_def bob_def)
  have roles: "rows (from_user_roles directory_world [''1'', ''2'']) = [\<lparr> user_id = ''1'', role = ''admin'' \<rparr>]"
    and social: "rows (from_user_social_accounts directory_world [''1'', ''2'']) = []"
    and wallets: "rows (from_user_wallets directory_world [''1'', ''2'']) = []"
    and bans: "rows (from_user_bans directory_world [''1'', ''2''] True) = [bob_ban]"
    by (simp_all add: directory_world_def rows_def no_rows_def)
  show ?thesis
    using failure satellite_failure_degrades [OF session profiles, of None]
    unfolding ids roles social wallets bans
    by (simp add: alice_def bob_def bob_ban_def)
qed

subsection \<open>The mutations\<close>

text \<open>
  C2, as the code has it. When the target of the ban is the caller's own id, the
  mutation always rejects, and it does so before any request to the remote store: the
  run is the console line, the session lookup and the failure notification, with no
  insert of a ban record, no invalidation of the query cache and no success
  notification, and the cache is left as it was. The error it rejects with is the
  self-ban error when a session exists, and the missing-session error when none does.
\<close>

theorem self_ban_rejected:
  assumes "user = Some caller" and "userId = caller_id caller"
  shows "(getSession w \<noteq> None \<longrightarrow>
            snd (banUser_mutationFn w user (userId, reason))
              = Inl (Error (Some ''You cannot ban yourself''))
          \<and> banUserMutation w user (userId, reason)
              = [Console_log ''UserManagement: Banning user:'' (Str userId),
                 Auth_getSession,
                 Toast \<lparr> title = ''Error'', description = ''You cannot ban yourself'',
                         variant = Some ''destructive'' \<rparr>])
       \<and> (getSession w = None \<longrightarrow>
            snd (banUser_mutationFn w user (userId, reason))
              = Inl (Error (Some ''No authenticated session found''))
          \<and> banUserMutation w user (userId, reason)
              = [Console_log ''UserManagement: Banning user:'' (Str userId),
                 Auth_getSession,
                 Toast \<lparr> title = ''Error'', description = ''No authenticated session found'',
                         variant = Some ''destructive'' \<rparr>])
       \<and> (\<exists>e. snd (banUser_mutationFn w user (userId, reason)) = Inl e)
       \<and> fst (banUser_mutationFn w user (userId, reason))
            = [Console_log ''UserManagement: Banning user:'' (Str userId), Auth_getSession]
       \<and> filter is_store_request (banUserMutation w user (userId, reason)) = []
       \<and> filter is_invalidation (banUserMutation w user (userId, reason)) = []
       \<and> filter is_success_toast (banUserMutation w user (userId, reason)) = []
       \<and> queries (run_effects (banUserMutation w user (userId, reason)) u) = queries u
       \<and> toasts (run_effects (banUserMutation w user (userId, reason)) u)
            = toasts u @ [\<lparr> title = ''Error'',
                            description = (if getSession w = None then ''No authenticated session found''
                                           else ''You cannot ban yourself''),
                            variant = Some ''destructive'' \<rparr>]"
  using assms
  by (cases "getSession w") (simp_all add: mutation_defs Let_def js_or_def)

theorem self_ban_rejected_witness:
  "banUserMutation signed_in_world (Some \<lparr> caller_id = ''u1'' \<rparr>) (''u1'', ''spam'')
     = [Console_log ''UserManagement: Banning user:'' (Str ''u1''),
        Auth_getSession,
        Toast \<lparr> title = ''Error'', description = ''You cannot ban yourself'',
                variant = Some ''destructive'' \<rparr>]
   \<and> banUserMutation quiet_world (Some \<lparr> caller_id = ''u1'' \<rparr>) (''u1'', ''spam'')
     = [Console_log ''UserManagement: Banning user:'' (Str ''u1''),
        Auth_getSession,
        Toast \<lparr> title = ''Error'', description = ''No authenticated session found'',
                variant = Some ''destructive'' \<rparr>]
   \<and> queries (run_effects (banUserMutation quiet_world (Some \<lparr> caller_id = ''u1'' \<rparr>) (''u1'', ''spam'')) example_ui)
     = queries example_ui"
proof -
  have signed_in: "getSession signed_in_world \<noteq> None"
    by (simp add: signed_in_world_def quiet_world_def)
  have signed_out: "getSession quiet_world = None"
    by (simp add: quiet_world_def)
  have own: "''u1'' = caller_id \<lparr> caller_id = ''u1'' \<rparr>"
    by simp
  have with_session:
    "banUserMutation signed_in_world (Some \<lparr> caller_id = ''u1'' \<rparr>) (''u1'', ''spam'')
       = [Console_log ''UserManagement: Banning user:'' (Str ''u1''),
          Auth_getSession,
          Toast \<lparr> title = ''Error'', description = ''You cannot ban yourself'',
                  variant = Some ''destructive'' \<rparr>]"
    using signed_in self_ban_rejected [OF refl own, of signed_in_world "''spam''" example_ui]
    by blast
  have without_session:
    "banUserMutation quiet_world (Some \<lparr> caller_id = ''u1'' \<rparr>) (''u1'', ''spam'')
       = [Console_log ''UserManagement: Banning user:'' (Str ''u1''),
          Auth_getSession,
          Toast \<lparr> title = ''Error'', description = ''No authenticated session found'',
                  variant = Some ''destructive'' \<rparr>]"
    using signed_out self_ban_rejected [OF refl own, of quiet_world "''spam''" example_ui]
    by blast
  have cache:
    "queries (run_effects (banUserMutation quiet_world (Some \<lparr> caller_id = ''u1'' \<rparr>) (''u1'', ''spam'')) example_ui)
       = queries example_ui"
    using self_ban_rejected [OF refl own, of quiet_world "''spam''" example_ui]
    by blast
  from with_session without_session cache show ?thesis
    by (intro conjI)
qed

text \<open>
  C2, as the claim states it, fails: without a session, a ban of the caller's own id
  rejects right after the session lookup with the missing-session error, not with the
  self-ban error.
\<close>

theorem self_ban_without_session_counterexample:
  "banUser_mutationFn quiet_world (Some \<lparr> caller_id = ''u1'' \<rparr>) (''u1'', ''spam'')
     = ([Console_log ''UserManagement: Banning user:'' (Str ''u1''), Auth_getSession],
        Inl (Error (Some ''No authenticated session found'')))
   \<and> snd (banUser_mutationFn quiet_world (Some \<lparr> caller_id = ''u1'' \<rparr>) (''u1'', ''spam''))
     \<noteq> Inl (Error (Some ''You cannot ban yourself''))"
  by (simp add: banUser_mutationFn_def quiet_world_def)

text \<open>
  C4. For each of the four mutations run with a session (and, for the ban, a target other
  than the caller): the run issues exactly one request to the store, its write. When the
  write succeeds, every cached directory entry, whatever its search term, is marked
  invalidated and the success notification of the mutation is shown. When the write
  fails, the cache is unchanged and a failure notification is shown that carries the
  message of the error, or the mutation's fixed fallback text when the error has no
  message (none, or the empty string).
\<close>

theorem mutation_outcome:
  assumes "getSession w = Some s" and "\<not> is_self_ban user m"
  shows "(write_error w (write_of w user m) = None \<longrightarrow>
            filter is_store_request (run_mutation w user m) = [Write (write_of w user m)]
          \<and> (\<forall>term. queries (run_effects (run_mutation w user m) u) [''adminUsers'', term]
                     = map_option (\<lambda>e. e\<lparr> isInvalidated := True \<rparr>) (queries u [''adminUsers'', term]))
          \<and> toasts (run_effects (run_mutation w user m) u)
              = toasts u @ [\<lparr> title = ''Success'', description = success_text m, variant = None \<rparr>])
       \<and> (\<forall>e. write_error w (write_of w user m) = Some e \<longrightarrow>
            filter is_store_request (run_mutation w user m) = [Write (write_of w user m)]
          \<and> queries (run_effects (run_mutation w user m) u) = queries u
          \<and> toasts (run_effects (run_mutation w user m) u)
              = toasts u @ [\<lparr> title = ''Error'',
                              description = (case message e of
                                               Some msg \<Rightarrow> if msg \<noteq> [] then msg else fallback_text m
                                             | None \<Rightarrow> fallback_text m),
                              variant = Some ''destructive'' \<rparr>])"
  using assms
  by (cases m) (auto simp: mutation_defs Let_def js_or_def invalidate_adminUsers split: option.splits)

theorem mutation_outcome_witness:
  "queries (run_effects (run_mutation signed_in_world None (MakeAdmin ''2'')) example_ui) [''adminUsers'', ''bob'']
     = Some \<lparr> entry_data = (), isInvalidated = True \<rparr>
   \<and> queries (run_effects (run_mutation signed_in_world None (MakeAdmin ''2'')) example_ui) [''adminUsers'', []]
     = Some \<lparr> entry_data = (), isInvalidated = True \<rparr>
   \<and> toasts (run_effects (run_mutation signed_in_world None (MakeAdmin ''2'')) example_ui)
     = [\<lparr> title = ''Success'', description = ''User has been made an admin.'', variant = None \<rparr>]
   \<and> queries (run_effects (run_mutation refusing_world None (UnbanUser ''2'')) example_ui) = queries example_ui
   \<and> toasts (run_effects (run_mutation refusing_world None (UnbanUser ''2'')) example_ui)
     = [\<lparr> title = ''Error'', description = ''permission denied'', variant = Some ''destructive'' \<rparr>]"
  using mutation_outcome [of signed_in_world "''tok''" None "MakeAdmin ''2''" example_ui]
    mutation_outcome [of refusing_world "''tok''" None "UnbanUser ''2''" example_ui]
  by (simp add: signed_in_world_def refusing_world_def quiet_world_def example_ui_def)

text \<open>
  C10. When a session exists and the caller is unknown, the comparison of the target id
  with the caller's id is false for every target, so the self-ban guard does not
  reject: the insert of the ban record is issued, with \<open>banned_by\<close> undefined, and the
  mutation function resolves or rejects as that insert does.
\<close>

theorem ban_unknown_caller:
  assumes "getSession w = Some s"
  shows "Some userId \<noteq> map_option caller_id (None :: auth_user option)
       \<and> fst (banUser_mutationFn w None (userId, reason))
           = [Console_log ''UserManagement: Banning user:'' (Str userId),
              Auth_getSession,
              Write (Insert_user_bans userId None (if reason \<noteq> [] then reason else ''No reason provided'') True)]
             @ log_error ''UserManagement: Ban user error:''
                 (write_error w (Insert_user_bans userId None (if reason \<noteq> [] then reason else ''No reason provided'') True))
       \<and> snd (banUser_mutationFn w None (userId, reason))
           = (case write_error w (Insert_user_bans userId None (if reason \<noteq> [] then reason else ''No reason provided'') True) of
                None \<Rightarrow> Inr () | Some e \<Rightarrow> Inl e)"
  using assms by (simp add: banUser_mutationFn_def Let_def log_error_def split: option.splits)

theorem ban_unknown_caller_witness:
  "banUser_mutationFn signed_in_world None (''u1'', [])
     = ([Console_log ''UserManagement: Banning user:'' (Str ''u1''),
         Auth_getSession,
         Write (Insert_user_bans ''u1'' None ''No reason provided'' True)],
        Inr ())"
  using ban_unknown_caller [of signed_in_world "''tok''" "''u1''" "[]"]
  by (simp add: signed_in_world_def quiet_world_def log_error_def prod_eq_iff)

subsection \<open>The empty directory\<close>

text \<open>
  C5. When a session exists and the profile select resolves without an error to no rows
  (an empty list, or a null list), the fetch returns the empty list at once: the run
  consists of the console line, the session lookup and the profile select, and none of
  the five satellite selects is issued.
\<close>

theorem fetch_no_profiles:
  assumes "getSession w = Some s"
    and "error (from_profiles w (profileQuery_of searchTerm)) = None"
    and "data (from_profiles w (profileQuery_of searchTerm)) = None
       \<or> data (from_profiles w (profileQuery_of searchTerm)) = Some []"
  shows "snd (queryFn w user searchTerm) = Inr []
       \<and> fst (queryFn w user searchTerm)
            = [Console_log ''UserManagement: Fetching enhanced user data, current user:''
                 (opt_str (map_option caller_id user)),
               Auth_getSession,
               Select (Profiles (profileQuery_of searchTerm))]
       \<and> filter is_satellite_select (fst (queryFn w user searchTerm)) = []"
  using assms by (auto simp: queryFn_def profileQuery_of_def Let_def)

theorem fetch_no_profiles_witness:
  "snd (queryFn signed_in_world None ''bob'') = Inr []
   \<and> filter is_satellite_select (fst (queryFn signed_in_world None ''bob'')) = []"
  using fetch_no_profiles [of signed_in_world "''tok''" "''bob''" None]
  by (simp add: signed_in_world_def quiet_world_def no_rows_def profileQuery_of_def)

section \<open>Properties of the board renderer\<close>

subsection \<open>Auxiliary facts\<close>

lemma selected_test:
  "(case selectedTile p of None \<Rightarrow> False | Some sel \<Rightarrow> cell_row sel = row \<and> cell_col sel = col)
     = is_selected p row col"
  by (cases "selectedTile p") (auto simp: is_selected_def)

lemma hinted_test:
  "list_ex (\<lambda>hint. cell_row hint = row \<and> cell_col hint = col) (hintTiles p) = is_hinted p row col"
proof -
  have "\<And>h::cell. (cell_row h = row \<and> cell_col h = col) = (h = \<lparr> cell_row = row, cell_col = col \<rparr>)"
    by auto
  then show ?thesis
    by (simp add: list_ex_iff is_hinted_def)
qed

lemma affects_test:
  "(case tiles anim of None \<Rightarrow> False
    | Some ts \<Rightarrow> list_ex (\<lambda>tile. cell_row tile = row \<and> cell_col tile = col) ts)
     = affects anim row col"
  by (simp add: affects_def list_ex_iff split: option.splits)

lemma getTileClassName_split:
  "getTileClassName isMobile p row col tile
     = size_classes isMobile @ '' rounded-lg border-2 cursor-pointer transition-all duration-200 ''
       @ state_classes (precedence_state p row col tile) @ accent_classes tile"
  unfolding getTileClassName_def Let_def selected_test hinted_test
  by (simp add: size_classes_def precedence_state_def accent_classes_def)

lemma state_classes_inj: "state_classes s = state_classes s' \<Longrightarrow> s = s'"
  by (cases s; cases s') simp_all

lemma precedence_state_applies: "applies p row col tile (precedence_state p row col tile)"
  by (simp add: precedence_state_def)

lemma precedence_state_highest:
  "applies p row col tile s' \<Longrightarrow> rank s' \<le> rank (precedence_state p row col tile)"
  by (cases s') (auto simp: precedence_state_def)

lemma filter_latest:
  assumes "P a" and "\<forall>b\<in>set post. \<not> P b"
  shows "filter P (pre @ a # post) = filter P pre @ [a]"
  using assms by simp

lemma getAnimationClasses_latest:
  assumes "animations p = Some (pre @ a # post)" and "affects a row col"
    and "\<forall>b\<in>set post. \<not> affects b row col"
  shows "getAnimationClasses p row col = effect_of_kind (type a)"
proof -
  let ?P = "\<lambda>anim. affects anim row col"
  have "filter ?P (pre @ a # post) = filter ?P pre @ [a]"
    using assms(2,3) by (rule filter_latest)
  then show ?thesis
    using assms(1)
    by (simp add: getAnimationClasses_def affects_test Let_def effect_of_kind_def)
qed

lemma getAnimationClasses_none:
  assumes "\<forall>anims. animations p = Some anims \<longrightarrow> (\<forall>b\<in>set anims. \<not> affects b row col)"
  shows "getAnimationClasses p row col = []"
  using assms
  by (cases "animations p") (simp_all add: getAnimationClasses_def affects_test Let_def)

lemma loading_when_degenerate:
  "degenerate (board p) \<Longrightarrow> EnhancedGameBoard isMobile p = Inr Loading"
  by (auto simp: EnhancedGameBoard_def degenerate_def split: option.splits list.splits)

lemma grid_not_loading:
  "\<not> degenerate (board p) \<Longrightarrow> EnhancedGameBoard isMobile p \<noteq> Inr Loading"
  by (auto simp: EnhancedGameBoard_def degenerate_def Let_def split: option.splits list.splits)

lemma tile_views_agree:
  "same_tile_up_to_size
     \<lparr> key = k, className = getTileClassName True p row col tile @ anim,
       onClick = c, tile_title = t, children = g \<rparr>
     \<lparr> key = k, className = getTileClassName False p row col tile @ anim,
       onClick = c, tile_title = t, children = g \<rparr>"
  by (simp add: same_tile_up_to_size_def getTileClassName_split)

subsection \<open>Animations\<close>

text \<open>
  C6. For every cell and every animation list: when the list is some events, then an
  event that affects the cell, then events none of which affects the cell, the cell's
  animation class is the effect of that event's kind alone, whatever came before it;
  when no event of the list affects the cell (or the list is null), the cell has no
  animation class. The effect of match is the ping class, of drop the bounce class, of
  invalid the pulse class, of cascade and of every other kind nothing. In particular
  two events that both affect cell (2,3), of kinds invalid then match, give the cell the
  effect of match.
\<close>

theorem latest_animation_wins:
  "(animations p = Some (pre @ a # post) \<and> affects a row col \<and> (\<forall>b\<in>set post. \<not> affects b row col)
      \<longrightarrow> getAnimationClasses p row col = effect_of_kind (type a))
   \<and> ((\<forall>anims. animations p = Some anims \<longrightarrow> (\<forall>b\<in>set anims. \<not> affects b row col))
      \<longrightarrow> getAnimationClasses p row col = [])
   \<and> effect_of_kind ''match'' = ''animate-ping ''
   \<and> effect_of_kind ''drop'' = ''animate-bounce ''
   \<and> effect_of_kind ''invalid'' = ''animate-pulse ''
   \<and> effect_of_kind ''cascade'' = []
   \<and> (\<forall>k. k \<noteq> ''match'' \<and> k \<noteq> ''drop'' \<and> k \<noteq> ''invalid'' \<longrightarrow> effect_of_kind k = [])
   \<and> (animations p = Some [x, y] \<and> affects x 2 3 \<and> affects y 2 3
        \<and> type x = ''invalid'' \<and> type y = ''match''
      \<longrightarrow> getAnimationClasses p 2 3 = ''animate-ping '')"
proof -
  have last_wins: "getAnimationClasses p 2 3 = ''animate-ping ''"
    if "animations p = Some [x, y]" "affects y 2 3" "type y = ''match''"
  proof -
    from that(1) have "animations p = Some ([x] @ y # [])" by simp
    then have "getAnimationClasses p 2 3 = effect_of_kind (type y)"
      using that(2) by (rule getAnimationClasses_latest) simp
    then show ?thesis using that(3) by (simp add: effect_of_kind_def)
  qed
  show ?thesis
    using getAnimationClasses_latest [of p pre a post row col]
      getAnimationClasses_none [of p row col] last_wins
    by (simp add: effect_of_kind_def)
qed

theorem latest_animation_wins_witness:
  "affects invalid_event 2 3 \<and> affects match_event 2 3
   \<and> getAnimationClasses example_props 2 3 = ''animate-ping ''
   \<and> getAnimationClasses example_props 0 1 = []"
  using latest_animation_wins [of example_props "[invalid_event]" match_event "[]" 2 3 invalid_event match_event]
    latest_animation_wins [of example_props "[invalid_event]" match_event "[]" 0 1 invalid_event match_event]
  by (simp add: example_props_def invalid_event_def match_event_def affects_def effect_of_kind_def)

subsection \<open>Visual states\<close>

text \<open>
  C7. The class of a tile is the size classes, the fixed classes, the classes of one
  base visual state and the accent of the tile's kind. That state is the one the
  precedence selected > hinted > blocked > empty > ordinary picks: it applies to the
  cell, and no state that applies has a higher rank. So a selected cell shows the
  selected state, also when it is hinted or its tile is blocked or empty, and a hinted
  cell that is not selected shows the hinted state, also when its tile is blocked or
  empty. The class shows no other state.
\<close>

theorem tile_state_precedence:
  "getTileClassName isMobile p row col tile
     = size_classes isMobile @ '' rounded-lg border-2 cursor-pointer transition-all duration-200 ''
       @ state_classes (precedence_state p row col tile) @ accent_classes tile
   \<and> applies p row col tile (precedence_state p row col tile)
   \<and> (\<forall>s'. applies p row col tile s' \<longrightarrow> rank s' \<le> rank (precedence_state p row col tile))
   \<and> (is_selected p row col \<longrightarrow> precedence_state p row col tile = Selected)
   \<and> (\<not> is_selected p row col \<and> is_hinted p row col \<longrightarrow> precedence_state p row col tile = Hinted)
   \<and> (\<forall>s'. getTileClassName isMobile p row col tile
             = size_classes isMobile @ '' rounded-lg border-2 cursor-pointer transition-all duration-200 ''
               @ state_classes s' @ accent_classes tile
           \<longrightarrow> s' = precedence_state p row col tile)"
proof -
  have shown: "getTileClassName isMobile p row col tile
     = size_classes isMobile @ '' rounded-lg border-2 cursor-pointer transition-all duration-200 ''
       @ state_classes (precedence_state p row col tile) @ accent_classes tile"
    by (rule getTileClassName_split)
  have only: "s' = precedence_state p row col tile"
    if "getTileClassName isMobile p row col tile
          = size_classes isMobile @ '' rounded-lg border-2 cursor-pointer transition-all duration-200 ''
            @ state_classes s' @ accent_classes tile" for s'
  proof -
    from that have "state_classes s' = state_classes (precedence_state p row col tile)"
      unfolding shown by (simp only: same_append_eq append_same_eq)
    then show ?thesis by (rule state_classes_inj)
  qed
  show ?thesis
    using shown only precedence_state_applies [of p row col tile]
      precedence_state_highest [of p row col tile]
    by (simp add: precedence_state_def)
qed

theorem tile_state_precedence_witness:
  "is_selected example_props 2 3 \<and> is_hinted example_props 2 3
   \<and> getTileClassName False example_props 2 3 BLOCKED
       = ''w-12 h-12 flex items-center justify-center text-2xl rounded-lg border-2 cursor-pointer transition-all duration-200 border-yellow-400 bg-yellow-900/50 shadow-lg shadow-yellow-500/50 ''
   \<and> \<not> is_selected example_props 1 1 \<and> is_hinted example_props 1 1
   \<and> getTileClassName True example_props 1 1 BLOCKED
       = ''w-10 h-10 flex items-center justify-center text-xl rounded-lg border-2 cursor-pointer transition-all duration-200 border-green-400 bg-green-900/30 animate-pulse ''"
  using tile_state_precedence [of False example_props 2 3 BLOCKED]
    tile_state_precedence [of True example_props 1 1 BLOCKED]
  by (simp add: example_props_def is_selected_def is_hinted_def size_classes_def accent_classes_def)

subsection \<open>Degenerate boards\<close>

text \<open>
  C8. For a degenerate board (null, no rows, a null first row, or a first row of length
  zero) the renderer returns the loading placeholder: it does not throw, and the result
  holds no tile and is the same whatever the presentation mode, the selection, the
  hints, the animations and the rows after the first are, so nothing is computed per
  cell.
\<close>

theorem degenerate_board_loading:
  assumes "degenerate (board (p :: 'n props))"
  shows "EnhancedGameBoard isMobile p = Inr Loading
       \<and> (\<forall>isMobile' (p' :: 'n props).
             board p' = board p \<longrightarrow> EnhancedGameBoard isMobile' p' = Inr Loading)"
  using assms loading_when_degenerate by metis

theorem degenerate_board_loading_witness:
  "degenerate (board degenerate_props)
   \<and> EnhancedGameBoard True degenerate_props = (Inr Loading :: js_exception + nat view)"
  using degenerate_board_loading [of degenerate_props True]
  by (simp add: degenerate_props_def degenerate_def)

subsection \<open>Presentation mode\<close>

text \<open>
  C9. The mobile and the desktop run of the renderer on the same props agree up to the
  size and spacing classes: both throw, or both return the loading placeholder, or both
  return a grid with the same tiles in the same places, each pair of tiles with the same
  key, the same click outcome (swallowed, or forwarded with the same row and column),
  the same title, the same glyph and, behind the size classes of each run, the same
  class (hence the same base visual state, accent and animation effect), and with the
  same lines under the grid; the grid's own class differs in its gap and padding only.
\<close>

theorem density_changes_sizes_only:
  "same_up_to_size (EnhancedGameBoard True p) (EnhancedGameBoard False p)"
proof (cases "degenerate (board p)")
  case True
  then show ?thesis
    by (simp add: loading_when_degenerate)
next
  case False
  then obtain b r0 where b: "board p = Some b" "b \<noteq> []" "b ! 0 = Some r0" "r0 \<noteq> []"
    by (auto simp: degenerate_def split: option.splits list.splits)
  show ?thesis
  proof (cases "list_ex (\<lambda>r. r = None) b")
    case True
    with b show ?thesis by (simp add: EnhancedGameBoard_def)
  next
    case False
    have "list_all2 (list_all2 same_tile_up_to_size)
       (map (\<lambda>(rowIndex, r).
              map (\<lambda>(colIndex, tile).
                \<lparr> key = show_nat rowIndex @ ''-'' @ show_nat colIndex,
                  className = getTileClassName True p rowIndex colIndex tile
                    @ '' '' @ getAnimationClasses p rowIndex colIndex,
                  onClick = handleTileClick p rowIndex colIndex,
                  tile_title = ''Row '' @ show_nat (rowIndex + 1) @ '', Col '' @ show_nat (colIndex + 1),
                  children = getTileEmoji tile \<rparr>)
                (enumerate 0 (the r)))
          (enumerate 0 b))
       (map (\<lambda>(rowIndex, r).
              map (\<lambda>(colIndex, tile).
                \<lparr> key = show_nat rowIndex @ ''-'' @ show_nat colIndex,
                  className = getTileClassName False p rowIndex colIndex tile
                    @ '' '' @ getAnimationClasses p rowIndex colIndex,
                  onClick = handleTileClick p rowIndex colIndex,
                  tile_title = ''Row '' @ show_nat (rowIndex + 1) @ '', Col '' @ show_nat (colIndex + 1),
                  children = getTileEmoji tile \<rparr>)
                (enumerate 0 (the r)))
          (enumerate 0 b))"
      by (simp add: list_all2_map1 list_all2_map2 list_all2_same tile_views_agree split_beta)
    with b False show ?thesis
      by (simp add: EnhancedGameBoard_def)
  qed
qed

theorem density_changes_sizes_only_witness:
  "same_up_to_size (EnhancedGameBoard True example_props) (EnhancedGameBoard False example_props)
   \<and> EnhancedGameBoard True example_props \<noteq> EnhancedGameBoard False example_props"
  using density_changes_sizes_only [of example_props]
  by (simp add: EnhancedGameBoard_def example_props_def)


end
